theory Spec2Isabelle
  imports Complex_Main "HOL-Library.Sublist"
begin

section \<open>Tensor elements\<close>

text \<open>
  A tensor element is a floating-point number. The model keeps the special values of
  the arithmetic (the two infinities and NaN), since division by zero and the logarithm
  of zero produce them and the code relies on masking them out; finite values are exact
  reals. Rounding, overflow, underflow and the sign of zero are not modelled: a finite
  operation on finite values gives the exact real result, and \<open>x / 0\<close> for \<open>x \<noteq> 0\<close>
  is the infinity with the sign of \<open>x\<close>.
\<close>

datatype fl = Fin real | PInf | NInf | NaN



fun fneg :: "fl \<Rightarrow> fl" where
  "fneg (Fin a) = Fin (- a)"
| "fneg PInf = NInf"
| "fneg NInf = PInf"
| "fneg NaN = NaN"

fun fadd :: "fl \<Rightarrow> fl \<Rightarrow> fl" where
  "fadd (Fin a) (Fin b) = Fin (a + b)"
| "fadd NaN _ = NaN"
| "fadd _ NaN = NaN"
| "fadd PInf NInf = NaN"
| "fadd NInf PInf = NaN"
| "fadd PInf _ = PInf"
| "fadd _ PInf = PInf"
| "fadd NInf _ = NInf"
| "fadd _ NInf = NInf"

definition fsub :: "fl \<Rightarrow> fl \<Rightarrow> fl" where
  "fsub a b = fadd a (fneg b)"

text \<open>The infinity with the sign of a finite factor; zero times infinity is NaN.\<close>

definition signed_inf :: "real \<Rightarrow> fl" where
  "signed_inf a = (if a = 0 then NaN else if 0 < a then PInf else NInf)"

fun fmul :: "fl \<Rightarrow> fl \<Rightarrow> fl" where
  "fmul (Fin a) (Fin b) = Fin (a * b)"
| "fmul NaN _ = NaN"
| "fmul _ NaN = NaN"
| "fmul (Fin a) PInf = signed_inf a"
| "fmul (Fin a) NInf = signed_inf (- a)"
| "fmul PInf (Fin b) = signed_inf b"
| "fmul NInf (Fin b) = signed_inf (- b)"
| "fmul PInf PInf = PInf"
| "fmul NInf NInf = PInf"
| "fmul PInf NInf = NInf"
| "fmul NInf PInf = NInf"

fun fdiv :: "fl \<Rightarrow> fl \<Rightarrow> fl" where
  "fdiv (Fin a) (Fin b) = (if b \<noteq> 0 then Fin (a / b) else signed_inf a)"
| "fdiv NaN _ = NaN"
| "fdiv _ NaN = NaN"
| "fdiv (Fin a) _ = Fin 0"
| "fdiv PInf (Fin b) = (if 0 \<le> b then PInf else NInf)"
| "fdiv NInf (Fin b) = (if 0 \<le> b then NInf else PInf)"
| "fdiv _ _ = NaN"

fun fexp :: "fl \<Rightarrow> fl" where
  "fexp (Fin a) = Fin (exp a)"
| "fexp PInf = PInf"
| "fexp NInf = Fin 0"
| "fexp NaN = NaN"

fun flog :: "fl \<Rightarrow> fl" where
  "flog (Fin a) = (if 0 < a then Fin (ln a) else if a = 0 then NInf else NaN)"
| "flog PInf = PInf"
| "flog NInf = NaN"
| "flog NaN = NaN"

text \<open>\<open>torch.sum\<close> over a sequence of elements; the empty sum is \<open>0\<close>.\<close>

definition fsum :: "fl list \<Rightarrow> fl" where
  "fsum xs = foldl fadd (Fin 0) xs"

section \<open>Tensors\<close>

text \<open>
  A tensor is its shape and its elements in row-major order. A well-formed tensor has
  as many elements as its shape says.
\<close>

record tensor =
  shape :: "nat list"
  data :: "fl list"

definition wf_tensor :: "tensor \<Rightarrow> bool" where
  "wf_tensor t = (length (data t) = prod_list (shape t))"

definition ndim :: "tensor \<Rightarrow> nat" where
  "ndim t = length (shape t)"

definition scalar :: "fl \<Rightarrow> tensor" where
  "scalar x = \<lparr>shape = [], data = [x]\<rparr>"

text \<open>Elementwise operations on tensors of one shape, and with a Python number.\<close>

definition t_map :: "(fl \<Rightarrow> fl) \<Rightarrow> tensor \<Rightarrow> tensor" where
  "t_map f t = \<lparr>shape = shape t, data = map f (data t)\<rparr>"

definition t_map2 :: "(fl \<Rightarrow> fl \<Rightarrow> fl) \<Rightarrow> tensor \<Rightarrow> tensor \<Rightarrow> tensor" where
  "t_map2 f s t = \<lparr>shape = shape s, data = map2 f (data s) (data t)\<rparr>"

definition t_exp :: "tensor \<Rightarrow> tensor" where
  "t_exp = t_map fexp"

definition t_log :: "tensor \<Rightarrow> tensor" where
  "t_log = t_map flog"

definition t_add :: "tensor \<Rightarrow> tensor \<Rightarrow> tensor" where
  "t_add = t_map2 fadd"

definition t_sub :: "tensor \<Rightarrow> tensor \<Rightarrow> tensor" where
  "t_sub = t_map2 fsub"

definition t_mul :: "tensor \<Rightarrow> tensor \<Rightarrow> tensor" where
  "t_mul = t_map2 fmul"

definition t_div :: "tensor \<Rightarrow> tensor \<Rightarrow> tensor" where
  "t_div = t_map2 fdiv"

definition t_scale :: "real \<Rightarrow> tensor \<Rightarrow> tensor" where
  "t_scale c = t_map (fmul (Fin c))"

definition t_div_int :: "tensor \<Rightarrow> int \<Rightarrow> tensor" where
  "t_div_int t n = t_map (\<lambda>x. fdiv x (Fin (of_int n))) t"

text \<open>\<open>t.sum()\<close>: the sum of all elements, a 0-dimensional tensor.\<close>

definition t_sum :: "tensor \<Rightarrow> tensor" where
  "t_sum t = scalar (fsum (data t))"

text \<open>
  Reductions along the last axis and the broadcast they feed. \<open>chunks n d xs\<close> cuts
  row-major data into \<open>n\<close> rows of \<open>d\<close> elements; \<open>rows\<close> are the slices of a
  tensor along its last axis. \<open>sum_last\<close> is \<open>t.sum(dim=-1)\<close>, \<open>sum_last_keepdim\<close>
  is \<open>t.sum(dim=-1, keepdim=True)\<close>, and \<open>t_div_last t s\<close> is \<open>t / s\<close> for \<open>s\<close> of
  that kept shape, each row of \<open>t\<close> divided by its one element of \<open>s\<close>. They are
  applied to tensors of at least one dimension only.
\<close>

fun chunks :: "nat \<Rightarrow> nat \<Rightarrow> 'a list \<Rightarrow> 'a list list" where
  "chunks 0 d xs = []"
| "chunks (Suc n) d xs = take d xs # chunks n d (drop d xs)"

definition rows :: "tensor \<Rightarrow> fl list list" where
  "rows t = chunks (prod_list (butlast (shape t))) (last (shape t)) (data t)"

definition sum_last :: "tensor \<Rightarrow> tensor" where
  "sum_last t = \<lparr>shape = butlast (shape t), data = map fsum (rows t)\<rparr>"

definition sum_last_keepdim :: "tensor \<Rightarrow> tensor" where
  "sum_last_keepdim t = \<lparr>shape = butlast (shape t) @ [1], data = map fsum (rows t)\<rparr>"

definition t_div_last :: "tensor \<Rightarrow> tensor \<Rightarrow> tensor" where
  "t_div_last t s =
     \<lparr>shape = shape t,
      data = concat (map2 (\<lambda>r x. map (\<lambda>y. fdiv y x) r) (rows t) (data s))\<rparr>"

section \<open>Errors and collaborators\<close>

text \<open>
  The exceptions the code raises, as values. \<open>ShapeMismatch\<close> is the error of the
  shape check (a \<open>RuntimeError\<close> in the tests), carrying the two shapes; the others
  carry the message the source formats, where it formats one.
\<close>

datatype error =
  ShapeMismatch "nat list" "nat list"
| ValueError string
| AttributeError
| TypeError

text \<open>
  Modelled from the spec: \<open>_check_same_shape\<close> of \<open>torchmetrics.utilities.checks\<close>,
  which is not among the sources. Given two arrays, it signals an error if their shapes
  differ.
\<close>

definition check_same_shape :: "tensor \<Rightarrow> tensor \<Rightarrow> error + unit" where
  "check_same_shape preds target =
     (if shape preds \<noteq> shape target then Inl (ShapeMismatch (shape preds) (shape target))
      else Inr ())"

text \<open>
  Modelled from the spec: \<open>_safe_xlogy\<close> of \<open>torchmetrics.utilities.compute\<close>, which
  is not among the sources. Given \<open>x\<close> and \<open>y\<close> it returns, elementwise, \<open>0\<close> where
  \<open>x == 0\<close> and \<open>x * ln(y)\<close> otherwise.
\<close>

definition safe_xlogy_elem :: "fl \<Rightarrow> fl \<Rightarrow> fl" where
  "safe_xlogy_elem x y = (if x = Fin 0 then Fin 0 else fmul x (flog y))"

definition safe_xlogy :: "tensor \<Rightarrow> tensor \<Rightarrow> tensor" where
  "safe_xlogy = t_map2 safe_xlogy_elem"

text \<open>Python's \<open>str\<close> of a non-negative integer, for the formatted messages.\<close>

definition digit_char :: "nat \<Rightarrow> char" where
  "digit_char n = ''0123456789'' ! n"

fun string_of_nat :: "nat \<Rightarrow> string" where
  "string_of_nat n =
     (if n < 10 then [digit_char n] else string_of_nat (n div 10) @ [digit_char (n mod 10)])"

definition rank_message :: "nat \<Rightarrow> nat \<Rightarrow> string" where
  "rank_message a b =
     ''Expected both p and q distributions to be 2D but got '' @ string_of_nat a
       @ '' and '' @ string_of_nat b @ '' respectively''"

section \<open>The divergence kernel\<close>

text \<open>
  \<open>_jsd_update\<close>: the shape check, the rank check, then the per-sample measures and
  the row count. \<open>p'\<close> and \<open>q'\<close> are the rebound \<open>p\<close> and \<open>q\<close> of the branch for
  probabilities.
\<close>

definition jsd_update :: "tensor \<Rightarrow> tensor \<Rightarrow> bool \<Rightarrow> error + tensor \<times> nat" where
  "jsd_update p q log_prob =
     (case check_same_shape p q of
        Inl e \<Rightarrow> Inl e
      | Inr _ \<Rightarrow>
          if ndim p \<noteq> 2 \<or> ndim q \<noteq> 2 then Inl (ValueError (rank_message (ndim p) (ndim q)))
          else
            let tot = shape p ! 0 in
            if log_prob then
              let p_prob = t_exp p;
                  q_prob = t_exp q;
                  m = t_log (t_scale 0.5 (t_add p_prob q_prob));
                  measure1 = sum_last (t_mul p_prob (t_sub p m));
                  measure2 = sum_last (t_mul q_prob (t_sub q m));
                  ms = t_scale 0.5 (t_add measure1 measure2)
              in Inr (ms, tot)
            else
              let p' = t_div_last p (sum_last_keepdim p);
                  q' = t_div_last q (sum_last_keepdim q);
                  m = t_scale 0.5 (t_add p' q');
                  measure1 = sum_last (safe_xlogy p' (t_div p' m));
                  measure2 = sum_last (safe_xlogy q' (t_div q' m));
                  ms = t_scale 0.5 (t_add measure1 measure2)
              in Inr (ms, tot))"

section \<open>The reduction step\<close>

text \<open>
  A reduction is a Python string or \<open>None\<close>. \<open>_jsd_compute\<close> (the leading underscore
  of the source's names is dropped) takes the measures, the count and the reduction.
\<close>

type_synonym reduction = "string option"

definition jsd_compute :: "tensor \<Rightarrow> int \<Rightarrow> reduction \<Rightarrow> tensor" where
  "jsd_compute ms tot reduction =
     (if reduction = Some ''sum'' then t_sum ms
      else if reduction = Some ''mean'' then t_div_int (t_sum ms) tot
      else if reduction = None \<or> reduction = Some ''none'' then ms
      else t_div_int ms tot)"

text \<open>\<open>js_divergence\<close>: the update, then the reduction with the count of that batch.\<close>

definition js_divergence :: "tensor \<Rightarrow> tensor \<Rightarrow> bool \<Rightarrow> reduction \<Rightarrow> error + tensor" where
  "js_divergence p q log_prob reduction =
     (case jsd_update p q log_prob of
        Inl e \<Rightarrow> Inl e
      | Inr (ms, tot) \<Rightarrow> Inr (jsd_compute ms (int tot) reduction))"

section \<open>The accumulator\<close>

text \<open>
  The state of a \<open>JSDivergence\<close> object: its two settings and the two states it
  registers. \<open>self.measures\<close> is a 0-dimensional tensor for \<open>"mean"\<close> and \<open>"sum"\<close>
  and a list of tensors otherwise. The base class \<open>Metric\<close> (synchronisation, caching,
  \<open>forward\<close>, reset) is not among the sources and is not modelled: \<open>update\<close> and
  \<open>compute\<close> are the methods as the class writes them. \<open>log_prob\<close> is a boolean by
  its type here, so the constructor's \<open>isinstance\<close> check has no failing case.
\<close>

datatype measures_state = MTensor tensor | MList "tensor list"

record JSDivergence =
  self_log_prob :: bool
  self_reduction :: reduction
  self_measures :: measures_state
  self_total :: int

definition allowed_reduction :: "reduction list" where
  "allowed_reduction = [Some ''mean'', Some ''sum'', Some ''none'', None]"

text \<open>Python's \<open>str\<close> of a reduction and of the list of allowed ones, for the message.\<close>

definition str_reduction :: "reduction \<Rightarrow> string" where
  "str_reduction r = (case r of None \<Rightarrow> ''None'' | Some s \<Rightarrow> s)"

definition quoted :: "string \<Rightarrow> string" where
  "quoted s = [CHR 0x27] @ s @ [CHR 0x27]"

definition reduction_message :: "reduction \<Rightarrow> string" where
  "reduction_message r =
     ''Expected argument '' @ [CHR 0x60] @ ''reduction'' @ [CHR 0x60] @ '' to be one of [''
       @ quoted ''mean'' @ '', '' @ quoted ''sum'' @ '', '' @ quoted ''none''
       @ '', None] but got '' @ str_reduction r"

definition JSDivergence_init :: "bool \<Rightarrow> reduction \<Rightarrow> error + JSDivergence" where
  "JSDivergence_init log_prob reduction =
     (if reduction \<notin> set allowed_reduction then Inl (ValueError (reduction_message reduction))
      else Inr \<lparr>self_log_prob = log_prob,
                self_reduction = reduction,
                self_measures =
                  (if reduction \<in> set [Some ''mean'', Some ''sum'']
                   then MTensor (scalar (Fin 0)) else MList []),
                self_total = 0\<rparr>)"

text \<open>
  \<open>update\<close>. Appending to a tensor and adding a tensor to a list fail in Python; an
  object built by the constructor never reaches these two branches.
\<close>

definition update :: "JSDivergence \<Rightarrow> tensor \<Rightarrow> tensor \<Rightarrow> error + JSDivergence" where
  "update self p q =
     (case jsd_update p q (self_log_prob self) of
        Inl e \<Rightarrow> Inl e
      | Inr (ms, tot) \<Rightarrow>
          if self_reduction self = None \<or> self_reduction self = Some ''none'' then
            (case self_measures self of
               MList l \<Rightarrow> Inr (self\<lparr>self_measures := MList (l @ [ms])\<rparr>)
             | MTensor _ \<Rightarrow> Inl AttributeError)
          else
            (case self_measures self of
               MTensor t \<Rightarrow>
                 Inr (self\<lparr>self_measures := MTensor (t_add t (t_sum ms)),
                           self_total := self_total self + int tot\<rparr>)
             | MList _ \<Rightarrow> Inl TypeError))"

text \<open>
  Modelled from the spec: \<open>dim_zero_cat\<close> of \<open>torchmetrics.utilities.data\<close>, which is
  not among the sources. It concatenates the stored sequence of per-sample vectors into
  one vector, in append order; a state that is a tensor already is returned as it is.
\<close>

definition dim_zero_cat :: "measures_state \<Rightarrow> tensor" where
  "dim_zero_cat x =
     (case x of
        MTensor t \<Rightarrow> t
      | MList ts \<Rightarrow> \<lparr>shape = [length (concat (map data ts))], data = concat (map data ts)\<rparr>)"

text \<open>
  \<open>compute\<close>. A list reaches \<open>_jsd_compute\<close> only for a reduction outside
  \<open>"none"\<close> and \<open>None\<close>, where its first use as a tensor fails.
\<close>

definition compute :: "JSDivergence \<Rightarrow> error + tensor" where
  "compute self =
     (if self_reduction self \<in> set [Some ''none'', None]
      then Inr (jsd_compute (dim_zero_cat (self_measures self)) (self_total self)
                  (self_reduction self))
      else (case self_measures self of
              MTensor t \<Rightarrow> Inr (jsd_compute t (self_total self) (self_reduction self))
            | MList _ \<Rightarrow> Inl AttributeError))"

section \<open>The algorithm as the specification words it\<close>

text \<open>
  The specification describes the update one sample at a time. \<open>spec_row t i\<close> is
  sample \<open>i\<close> of a batch of shape \<open>(N, d)\<close>, read by index from the row-major data.
  \<open>spec_measure_log\<close> is the per-sample measure for log-probabilities: with
  \<open>P = exp(p)\<close>, \<open>Q = exp(q)\<close> and \<open>M = log(0.5*(P+Q))\<close> it is
  \<open>0.5 * [sum_d P*(p-M) + sum_d Q*(q-M)]\<close>. \<open>spec_measure_prob\<close> is the one for
  probabilities: each row is divided by its row sum, \<open>M = 0.5*(p+q)\<close>, and the
  measure is \<open>0.5 * [sum_d safe_xlogy(p, p/M) + sum_d safe_xlogy(q, q/M)]\<close>.
  \<open>spec_jsd_update\<close> is the pair the update returns: the vector of the \<open>N\<close>
  per-sample measures, and \<open>N\<close>.
\<close>

definition spec_row :: "tensor \<Rightarrow> nat \<Rightarrow> fl list" where
  "spec_row t i = map (\<lambda>j. data t ! (i * (shape t ! 1) + j)) [0..<shape t ! 1]"

definition spec_measure_log :: "fl list \<Rightarrow> fl list \<Rightarrow> fl" where
  "spec_measure_log p q =
     (let P = map fexp p;
          Q = map fexp q;
          M = map flog (map (fmul (Fin 0.5)) (map2 fadd P Q))
      in fmul (Fin 0.5)
           (fadd (fsum (map2 fmul P (map2 fsub p M))) (fsum (map2 fmul Q (map2 fsub q M)))))"

definition spec_measure_prob :: "fl list \<Rightarrow> fl list \<Rightarrow> fl" where
  "spec_measure_prob p q =
     (let p' = map (\<lambda>x. fdiv x (fsum p)) p;
          q' = map (\<lambda>x. fdiv x (fsum q)) q;
          M = map (fmul (Fin 0.5)) (map2 fadd p' q')
      in fmul (Fin 0.5)
           (fadd (fsum (map2 safe_xlogy_elem p' (map2 fdiv p' M)))
                 (fsum (map2 safe_xlogy_elem q' (map2 fdiv q' M)))))"

definition spec_measure :: "bool \<Rightarrow> fl list \<Rightarrow> fl list \<Rightarrow> fl" where
  "spec_measure log_prob = (if log_prob then spec_measure_log else spec_measure_prob)"

definition spec_jsd_update :: "tensor \<Rightarrow> tensor \<Rightarrow> bool \<Rightarrow> tensor \<times> nat" where
  "spec_jsd_update p q log_prob =
     (\<lparr>shape = [shape p ! 0],
       data = map (\<lambda>i. spec_measure log_prob (spec_row p i) (spec_row q i)) [0..<shape p ! 0]\<rparr>,
      shape p ! 0)"

section \<open>Notions for stating the properties\<close>


definition tensor2d :: "nat \<Rightarrow> nat \<Rightarrow> real list \<Rightarrow> tensor" where
  "tensor2d n d xs = \<lparr>shape = [n, d], data = map Fin xs\<rparr>"





section \<open>Properties of the reduction step\<close>

text \<open>
  C3. \<open>_jsd_compute\<close> has exactly four behaviours, for every measures tensor and every
  total: \<open>"sum"\<close> returns the sum of all entries; \<open>"mean"\<close> returns that sum divided by
  the total; \<open>"none"\<close> or \<open>None\<close> returns the measures unchanged; every other value
  returns the measures divided elementwise by the total.
\<close>

theorem jsd_compute_four_behaviours:
  "jsd_compute ms tot (Some ''sum'') = scalar (fsum (data ms))
   \<and> jsd_compute ms tot (Some ''mean'')
       = scalar (fdiv (fsum (data ms)) (Fin (of_int tot)))
   \<and> jsd_compute ms tot (Some ''none'') = ms
   \<and> jsd_compute ms tot None = ms
   \<and> (\<forall>r. r \<noteq> ''sum'' \<and> r \<noteq> ''mean'' \<and> r \<noteq> ''none'' \<longrightarrow>
         jsd_compute ms tot (Some r)
           = \<lparr>shape = shape ms,
              data = map (\<lambda>x. fdiv x (Fin (of_int tot))) (data ms)\<rparr>)"
  by (simp add: jsd_compute_def t_sum_def t_div_int_def t_map_def scalar_def)

theorem jsd_compute_four_behaviours_witness:
  "jsd_compute \<lparr>shape = [2], data = [Fin 1, Fin 3]\<rparr> 2 (Some ''sum'') = scalar (Fin 4)
   \<and> jsd_compute \<lparr>shape = [2], data = [Fin 1, Fin 3]\<rparr> 2 (Some ''mean'') = scalar (Fin 2)
   \<and> jsd_compute \<lparr>shape = [2], data = [Fin 1, Fin 3]\<rparr> 2 (Some ''none'')
       = \<lparr>shape = [2], data = [Fin 1, Fin 3]\<rparr>
   \<and> jsd_compute \<lparr>shape = [2], data = [Fin 1, Fin 3]\<rparr> 2 None
       = \<lparr>shape = [2], data = [Fin 1, Fin 3]\<rparr>
   \<and> jsd_compute \<lparr>shape = [2], data = [Fin 1, Fin 3]\<rparr> 2 (Some ''max'')
       = \<lparr>shape = [2], data = [Fin (1 / 2), Fin (3 / 2)]\<rparr>"
  using jsd_compute_four_behaviours [of "\<lparr>shape = [2], data = [Fin 1, Fin 3]\<rparr>" 2]
  by (simp add: fsum_def)

section \<open>Rows of a batch\<close>

text \<open>Cutting into rows commutes with the elementwise operations.\<close>

lemma length_chunks [simp]: "length (chunks n d xs) = n"
  by (induction n arbitrary: xs) auto

lemma chunks_map: "chunks n d (map f xs) = map (map f) (chunks n d xs)"
  by (induction n arbitrary: xs) (auto simp: take_map drop_map)

lemma chunks_zip: "chunks n d (zip xs ys) = map (\<lambda>(r, s). zip r s) (zip (chunks n d xs) (chunks n d ys))"
  by (induction n arbitrary: xs ys) (auto simp: take_zip drop_zip)

lemma chunks_map2:
  "chunks n d (map2 f xs ys) = map2 (map2 f) (chunks n d xs) (chunks n d ys)"
  by (simp add: chunks_map chunks_zip split_def)

lemma chunks_concat:
  "length rs = n \<Longrightarrow> \<forall>r\<in>set rs. length r = d \<Longrightarrow> chunks n d (concat rs) = rs"
  by (induction rs arbitrary: n) auto

lemma chunks_row_length:
  "length xs = n * d \<Longrightarrow> r \<in> set (chunks n d xs) \<Longrightarrow> length r = d"
proof (induction n arbitrary: xs)
  case 0
  then show ?case by simp
next
  case (Suc n)
  have "length (drop d xs) = n * d" using Suc.prems(1) by simp
  then show ?case using Suc.IH [of "drop d xs"] Suc.prems by auto
qed

lemma chunks_nth:
  "i < n \<Longrightarrow> chunks n d xs ! i = take d (drop (i * d) xs)"
proof (induction n arbitrary: xs i)
  case 0
  then show ?case by simp
next
  case (Suc n)
  then show ?case by (cases i) (auto simp: add.commute)
qed

lemma take_drop_nth:
  "i * d + d \<le> length xs \<Longrightarrow> take d (drop (i * d) xs) = map (\<lambda>j. xs ! (i * d + j)) [0..<d]"
  by (auto simp: list_eq_iff_nth_eq)

lemma rows_2d: "shape t = [n, d] \<Longrightarrow> rows t = chunks n d (data t)"
  by (simp add: rows_def)

lemma rows_t_map: "shape t = [n, d] \<Longrightarrow> rows (t_map f t) = map (map f) (rows t)"
  by (simp add: rows_def t_map_def chunks_map)

lemma rows_t_map2:
  "shape s = [n, d] \<Longrightarrow> shape t = [n, d] \<Longrightarrow>
   rows (t_map2 f s t) = map2 (map2 f) (rows s) (rows t)"
  by (simp add: rows_def t_map2_def chunks_map2)

lemma rows_t_div_last:
  assumes "wf_tensor t" "shape t = [n, d]"
  shows "rows (t_div_last t (sum_last_keepdim t)) = map (\<lambda>r. map (\<lambda>y. fdiv y (fsum r)) r) (rows t)"
proof -
  let ?rs = "chunks n d (data t)"
  have len: "length (data t) = n * d" using assms by (simp add: wf_tensor_def)
  have eq: "map2 (\<lambda>r x. map (\<lambda>y. fdiv y x) r) ?rs (map fsum ?rs)
            = map (\<lambda>r. map (\<lambda>y. fdiv y (fsum r)) r) ?rs"
    by (simp add: list_eq_iff_nth_eq)
  have "\<forall>r\<in>set (map (\<lambda>r. map (\<lambda>y. fdiv y (fsum r)) r) ?rs). length r = d"
    using chunks_row_length [OF len] by auto
  then have "chunks n d (concat (map (\<lambda>r. map (\<lambda>y. fdiv y (fsum r)) r) ?rs))
             = map (\<lambda>r. map (\<lambda>y. fdiv y (fsum r)) r) ?rs"
    by (intro chunks_concat) simp_all
  then show ?thesis
    using assms(2) eq by (simp add: rows_def t_div_last_def sum_last_keepdim_def)
qed

lemma shape_t_map [simp]: "shape (t_map f t) = shape t"
  by (simp add: t_map_def)

lemma shape_t_map2 [simp]: "shape (t_map2 f s t) = shape s"
  by (simp add: t_map2_def)

lemma shape_t_div_last [simp]: "shape (t_div_last t s) = shape t"
  by (simp add: t_div_last_def)

lemma length_rows_2d [simp]: "shape t = [n, d] \<Longrightarrow> length (rows t) = n"
  by (simp add: rows_def)

lemma data_sum_last [simp]: "data (sum_last t) = map fsum (rows t)"
  by (simp add: sum_last_def)

lemma shape_sum_last_2d [simp]: "shape t = [n, d] \<Longrightarrow> shape (sum_last t) = [n]"
  by (simp add: sum_last_def)

lemma jsd_update_rows:
  assumes "wf_tensor p" "wf_tensor q" "shape p = [n, d]" "shape q = [n, d]"
  shows "jsd_update p q log_prob
         = Inr (\<lparr>shape = [n], data = map2 (spec_measure log_prob) (rows p) (rows q)\<rparr>, n)"
proof (cases log_prob)
  case True
  define P where "P = t_map fexp p"
  define Q where "Q = t_map fexp q"
  define m where "m = t_map flog (t_map (fmul (Fin 0.5)) (t_map2 fadd P Q))"
  define A where "A = t_map2 fmul P (t_map2 fsub p m)"
  define B where "B = t_map2 fmul Q (t_map2 fsub q m)"
  have sh: "shape P = [n, d]" "shape Q = [n, d]" "shape m = [n, d]"
    "shape A = [n, d]" "shape B = [n, d]"
    using assms(3,4) by (simp_all add: P_def Q_def m_def A_def B_def)
  have rP: "rows P = map (map fexp) (rows p)" and rQ: "rows Q = map (map fexp) (rows q)"
    using assms(3,4) by (simp_all add: P_def Q_def rows_t_map)
  have rm: "rows m = map (map flog) (map (map (fmul (Fin 0.5))) (map2 (map2 fadd) (rows P) (rows Q)))"
    using sh(1,2) by (simp add: m_def rows_t_map [where n = n and d = d] rows_t_map2 [where n = n and d = d])
  have rA: "rows A = map2 (map2 fmul) (rows P) (map2 (map2 fsub) (rows p) (rows m))"
    using sh assms(3) by (simp add: A_def rows_t_map2 [where n = n and d = d])
  have rB: "rows B = map2 (map2 fmul) (rows Q) (map2 (map2 fsub) (rows q) (rows m))"
    using sh assms(4) by (simp add: B_def rows_t_map2 [where n = n and d = d])
  have len: "length (rows p) = n" "length (rows q) = n"
    using assms(3,4) by simp_all
  have "map (fmul (Fin 0.5)) (map2 fadd (map fsum (rows A)) (map fsum (rows B)))
        = map2 spec_measure_log (rows p) (rows q)"
    unfolding rA rB rm rP rQ using len
    by (simp add: list_eq_iff_nth_eq spec_measure_log_def Let_def)
  moreover have "jsd_update p q log_prob
    = Inr (\<lparr>shape = [n], data = map (fmul (Fin 0.5)) (map2 fadd (map fsum (rows A)) (map fsum (rows B)))\<rparr>, n)"
    using assms(3,4) True sh
    by (simp add: jsd_update_def check_same_shape_def ndim_def Let_def t_exp_def t_log_def
        t_scale_def t_add_def t_mul_def t_sub_def P_def Q_def m_def A_def B_def)
       (simp add: t_map_def t_map2_def)
  ultimately show ?thesis using True by (simp add: spec_measure_def)
next
  case False
  define P where "P = t_div_last p (sum_last_keepdim p)"
  define Q where "Q = t_div_last q (sum_last_keepdim q)"
  define m where "m = t_map (fmul (Fin 0.5)) (t_map2 fadd P Q)"
  define A where "A = t_map2 safe_xlogy_elem P (t_map2 fdiv P m)"
  define B where "B = t_map2 safe_xlogy_elem Q (t_map2 fdiv Q m)"
  have sh: "shape P = [n, d]" "shape Q = [n, d]" "shape m = [n, d]"
    "shape A = [n, d]" "shape B = [n, d]"
    using assms(3,4) by (simp_all add: P_def Q_def m_def A_def B_def)
  have rP: "rows P = map (\<lambda>r. map (\<lambda>y. fdiv y (fsum r)) r) (rows p)"
    and rQ: "rows Q = map (\<lambda>r. map (\<lambda>y. fdiv y (fsum r)) r) (rows q)"
    using assms by (simp_all add: P_def Q_def rows_t_div_last)
  have rm: "rows m = map (map (fmul (Fin 0.5))) (map2 (map2 fadd) (rows P) (rows Q))"
    using sh(1,2) by (simp add: m_def rows_t_map [where n = n and d = d] rows_t_map2 [where n = n and d = d])
  have rA: "rows A = map2 (map2 safe_xlogy_elem) (rows P) (map2 (map2 fdiv) (rows P) (rows m))"
    using sh by (simp add: A_def rows_t_map2 [where n = n and d = d])
  have rB: "rows B = map2 (map2 safe_xlogy_elem) (rows Q) (map2 (map2 fdiv) (rows Q) (rows m))"
    using sh by (simp add: B_def rows_t_map2 [where n = n and d = d])
  have len: "length (rows p) = n" "length (rows q) = n"
    using assms(3,4) by simp_all
  have "map (fmul (Fin 0.5)) (map2 fadd (map fsum (rows A)) (map fsum (rows B)))
        = map2 spec_measure_prob (rows p) (rows q)"
    unfolding rA rB rm rP rQ using len
    by (simp add: list_eq_iff_nth_eq spec_measure_prob_def Let_def)
  moreover have "jsd_update p q log_prob
    = Inr (\<lparr>shape = [n], data = map (fmul (Fin 0.5)) (map2 fadd (map fsum (rows A)) (map fsum (rows B)))\<rparr>, n)"
    using assms(3,4) False sh
    by (simp add: jsd_update_def check_same_shape_def ndim_def Let_def safe_xlogy_def
        t_scale_def t_add_def t_div_def P_def Q_def m_def A_def B_def)
       (simp add: t_map_def t_map2_def)
  ultimately show ?thesis using False by (simp add: spec_measure_def)
qed

lemma spec_row_eq:
  assumes "wf_tensor t" "shape t = [n, d]" "i < n"
  shows "rows t ! i = spec_row t i"
proof -
  have len: "length (data t) = n * d" using assms by (simp add: wf_tensor_def)
  have "i * d + d \<le> n * d"
  proof -
    have "Suc i \<le> n" using assms(3) by simp
    then have "Suc i * d \<le> n * d" by (rule mult_le_mono1)
    then show ?thesis by simp
  qed
  then show ?thesis
    using assms len by (simp add: rows_def spec_row_def chunks_nth take_drop_nth)
qed

declare string_of_nat.simps [simp del]

lemma string_of_nat_digit: "n < 10 \<Longrightarrow> string_of_nat n = [digit_char n]"
  by (simp add: string_of_nat.simps)

lemma map2_nth_upt:
  "length xs = n \<Longrightarrow> length ys = n \<Longrightarrow> map2 f xs ys = map (\<lambda>i. f (xs ! i) (ys ! i)) [0..<n]"
  by (simp add: list_eq_iff_nth_eq)

text \<open>
  C1. For every pair of well-formed 2-D tensors \<open>p\<close>, \<open>q\<close> of one shape \<open>(N, d)\<close>,
  \<open>_jsd_update(p, q, log_prob)\<close> returns the pair of the specification's algorithm:
  the vector of the \<open>N\<close> per-sample measures, each computed from row \<open>i\<close> of \<open>p\<close>
  and of \<open>q\<close> as the specification states it for that \<open>log_prob\<close>, and the row
  count \<open>N\<close>.
\<close>

theorem jsd_update_matches_spec:
  assumes "wf_tensor p" "wf_tensor q" "shape p = [n, d]" "shape q = [n, d]"
  shows "jsd_update p q log_prob = Inr (spec_jsd_update p q log_prob)"
proof -
  have "map2 (spec_measure log_prob) (rows p) (rows q)
        = map (\<lambda>i. spec_measure log_prob (rows p ! i) (rows q ! i)) [0..<n]"
    using assms(3,4) by (intro map2_nth_upt) simp_all
  also have "\<dots> = map (\<lambda>i. spec_measure log_prob (spec_row p i) (spec_row q i)) [0..<n]"
    using assms by (simp add: spec_row_eq)
  finally show ?thesis
    using assms by (simp add: jsd_update_rows spec_jsd_update_def)
qed

lemma fsum_Nil [simp]: "fsum [] = Fin 0"
  by (simp add: fsum_def)

lemma fadd_zero_left [simp]: "fadd (Fin 0) x = x"
  by (cases x) simp_all

theorem jsd_update_matches_spec_witness:
  "jsd_update \<lparr>shape = [1, 2], data = [Fin 1, Fin 3]\<rparr> \<lparr>shape = [1, 2], data = [Fin 1, Fin 1]\<rparr> False
   = Inr (\<lparr>shape = [1],
          data = [Fin (1 / 2 * (1 / 4 * ln (2 / 3) + 3 / 4 * ln (6 / 5)
                                + (1 / 2 * ln (4 / 3) + 1 / 2 * ln (4 / 5))))]\<rparr>, 1)"
  using jsd_update_matches_spec [of "\<lparr>shape = [1, 2], data = [Fin 1, Fin 3]\<rparr>"
      "\<lparr>shape = [1, 2], data = [Fin 1, Fin 1]\<rparr>" 1 2 False]
  by (simp add: wf_tensor_def spec_jsd_update_def spec_measure_def spec_measure_prob_def spec_row_def
      fsum_def safe_xlogy_elem_def Let_def upt_rec numeral_2_eq_2)

text \<open>
  C4. \<open>_jsd_update\<close> raises the shape-mismatch error whenever the shapes differ,
  whatever the ranks, so the shape check is reported first. When the shapes agree and an
  input is not 2-dimensional it raises a \<open>ValueError\<close> whose message mentions
  \<open>2D\<close> and reports both ranks; for two inputs of shape \<open>(10, 20, 5)\<close> the message
  ends in \<open>3 and 3 respectively\<close>.
\<close>

theorem jsd_update_errors:
  "(shape p \<noteq> shape q \<longrightarrow> jsd_update p q log_prob = Inl (ShapeMismatch (shape p) (shape q)))
   \<and> (shape p = shape q \<and> (ndim p \<noteq> 2 \<or> ndim q \<noteq> 2) \<longrightarrow>
        jsd_update p q log_prob = Inl (ValueError (rank_message (ndim p) (ndim q)))
        \<and> sublist ''2D'' (rank_message (ndim p) (ndim q))
        \<and> sublist (string_of_nat (ndim p) @ '' and '' @ string_of_nat (ndim q))
            (rank_message (ndim p) (ndim q)))
   \<and> (shape p = [10, 20, 5] \<and> shape q = [10, 20, 5] \<longrightarrow>
        jsd_update p q log_prob
        = Inl (ValueError ''Expected both p and q distributions to be 2D but got 3 and 3 respectively''))"
proof -
  have a: "sublist ''2D'' (rank_message a b)" for a b
    unfolding sublist_def rank_message_def
    by (rule exI [of _ "''Expected both p and q distributions to be ''"],
        rule exI [of _ "'' but got '' @ string_of_nat a @ '' and '' @ string_of_nat b @ '' respectively''"])
       simp
  have b: "sublist (string_of_nat a @ '' and '' @ string_of_nat b) (rank_message a b)" for a b
    unfolding sublist_def rank_message_def
    by (rule exI [of _ "''Expected both p and q distributions to be 2D but got ''"],
        rule exI [of _ "'' respectively''"]) simp
  show ?thesis
    using a b
    by (auto simp: jsd_update_def check_same_shape_def ndim_def rank_message_def
        string_of_nat_digit digit_char_def)
qed

theorem jsd_update_errors_witness:
  "jsd_update \<lparr>shape = [100], data = replicate 100 (Fin 1)\<rparr>
      \<lparr>shape = [50], data = replicate 50 (Fin 1)\<rparr> False = Inl (ShapeMismatch [100] [50])
   \<and> jsd_update \<lparr>shape = [3], data = replicate 3 (Fin 1)\<rparr>
      \<lparr>shape = [3], data = replicate 3 (Fin 1)\<rparr> False
     = Inl (ValueError ''Expected both p and q distributions to be 2D but got 1 and 1 respectively'')
   \<and> jsd_update \<lparr>shape = [10, 20, 5], data = replicate 1000 (Fin 1)\<rparr>
      \<lparr>shape = [10, 20, 5], data = replicate 1000 (Fin 1)\<rparr> False
     = Inl (ValueError ''Expected both p and q distributions to be 2D but got 3 and 3 respectively'')"
  using jsd_update_errors [of "\<lparr>shape = [100], data = replicate 100 (Fin 1)\<rparr>"
      "\<lparr>shape = [50], data = replicate 50 (Fin 1)\<rparr>" False]
    jsd_update_errors [of "\<lparr>shape = [3], data = replicate 3 (Fin 1)\<rparr>"
      "\<lparr>shape = [3], data = replicate 3 (Fin 1)\<rparr>" False]
    jsd_update_errors [of "\<lparr>shape = [10, 20, 5], data = replicate 1000 (Fin 1)\<rparr>"
      "\<lparr>shape = [10, 20, 5], data = replicate 1000 (Fin 1)\<rparr>" False]
  by (simp add: ndim_def rank_message_def string_of_nat_digit digit_char_def)

lemma fadd_commute: "fadd a b = fadd b a"
  by (cases a; cases b) simp_all

lemma map2_commute: "(\<And>a b. f a b = f b a) \<Longrightarrow> map2 f xs ys = map2 f ys xs"
  by (induction xs arbitrary: ys) (auto simp: zip_Cons1 split: list.splits)

lemma spec_measure_commute: "spec_measure log_prob a b = spec_measure log_prob b a"
proof -
  have 1: "map2 fadd xs ys = map2 fadd ys xs" for xs ys
    by (rule map2_commute) (rule fadd_commute)
  show ?thesis
    unfolding spec_measure_def spec_measure_log_def spec_measure_prob_def Let_def
    by (simp add: 1 [of "map fexp a"] 1 [of "map (\<lambda>x. fdiv x (fsum a)) a"] fadd_commute)
qed

text \<open>
  C7. For well-formed 2-D inputs of one shape, \<open>js_divergence\<close> with reduction
  \<open>"none"\<close> gives the same per-sample vector when \<open>p\<close> and \<open>q\<close> are swapped,
  for both values of \<open>log_prob\<close>. The arithmetic of the model is exact, so the
  equality is exact.
\<close>

theorem js_divergence_symmetric:
  assumes "wf_tensor p" "wf_tensor q" "shape p = [n, d]" "shape q = [n, d]"
  shows "js_divergence p q log_prob (Some ''none'') = js_divergence q p log_prob (Some ''none'')"
proof -
  have "map2 (spec_measure log_prob) (rows p) (rows q)
        = map2 (spec_measure log_prob) (rows q) (rows p)"
    by (rule map2_commute) (rule spec_measure_commute)
  then show ?thesis
    using assms by (simp add: js_divergence_def jsd_update_rows)
qed

lemma jsd_update_shape:
  assumes "jsd_update p q log_prob = Inr (ms, tot)"
  shows "shape ms = [tot] \<and> length (data ms) = tot"
proof -
  have sh: "shape p = shape q" and nd: "length (shape p) = 2"
    using assms by (auto simp: jsd_update_def check_same_shape_def ndim_def split: if_splits)
  from nd obtain n d where pq: "shape p = [n, d]"
    by (auto simp: numeral_2_eq_2 length_Suc_conv)
  have len: "length (rows t) = n" if "shape t = [n, d]" for t
    using that by simp
  show ?thesis
    using assms pq sh
    by (cases log_prob)
       (auto simp: jsd_update_def check_same_shape_def ndim_def Let_def t_scale_def t_add_def
        t_exp_def t_log_def t_mul_def t_sub_def t_div_def safe_xlogy_def t_map_def t_map2_def
        sum_last_def rows_def)
qed

lemma t_sum_scalar [simp]: "t_sum (scalar x) = scalar x"
  by (simp add: t_sum_def scalar_def fsum_def)

lemma t_add_scalar [simp]: "t_add (scalar x) (scalar y) = scalar (fadd x y)"
  by (simp add: t_add_def t_map2_def scalar_def)

text \<open>
  C6. For every log_prob and every reduction the constructor accepts, one \<open>update\<close>
  of a fresh accumulator followed by \<open>compute\<close> returns what \<open>js_divergence\<close>
  returns on that batch, errors included.
\<close>

theorem js_divergence_eq_single_update:
  assumes "JSDivergence_init log_prob reduction = Inr self"
  shows "(case update self p q of Inl e \<Rightarrow> Inl e | Inr self' \<Rightarrow> compute self')
         = js_divergence p q log_prob reduction"
proof (cases "jsd_update p q log_prob")
  case (Inl e)
  then show ?thesis
    using assms
    by (auto simp: JSDivergence_init_def update_def js_divergence_def split: if_splits)
next
  case (Inr r)
  obtain ms tot where r: "r = (ms, tot)" by (cases r)
  have ms: "\<lparr>shape = [length (data ms)], data = data ms\<rparr> = ms"
    using jsd_update_shape [OF Inr [unfolded r]] by simp
  have red: "reduction \<in> set allowed_reduction"
    using assms by (auto simp: JSDivergence_init_def split: if_splits)
  then show ?thesis
    using assms Inr r ms
    by (auto simp: JSDivergence_init_def allowed_reduction_def update_def compute_def
        js_divergence_def jsd_compute_def dim_zero_cat_def t_sum_def [of ms])
qed

text \<open>
  C5. An accumulator built with reduction \<open>"mean"\<close> and updated with two batches
  whose updates return the measures \<open>ms1\<close>, \<open>ms2\<close> and the counts \<open>n1\<close>, \<open>n2\<close>
  computes \<open>(sum1 + sum2) / (n1 + n2)\<close>, the mean weighted by the counts. The
  witness is a pair of batches where this differs from the average of the two batch
  means.
\<close>

theorem accumulator_mean_is_weighted:
  assumes "JSDivergence_init log_prob (Some ''mean'') = Inr s0"
    and "jsd_update p1 q1 log_prob = Inr (ms1, n1)"
    and "jsd_update p2 q2 log_prob = Inr (ms2, n2)"
  shows "\<exists>s1 s2. update s0 p1 q1 = Inr s1 \<and> update s1 p2 q2 = Inr s2
           \<and> compute s2
             = Inr (scalar (fdiv (fadd (fsum (data ms1)) (fsum (data ms2)))
                                 (Fin (real (n1 + n2)))))"
proof -
  have s0: "s0 = \<lparr>self_log_prob = log_prob, self_reduction = Some ''mean'',
                   self_measures = MTensor (scalar (Fin 0)), self_total = 0\<rparr>"
    using assms(1) by (simp add: JSDivergence_init_def allowed_reduction_def)
  define s1 where "s1 = s0\<lparr>self_measures := MTensor (scalar (fsum (data ms1))),
                            self_total := int n1\<rparr>"
  define s2 where "s2 = s1\<lparr>self_measures :=
                              MTensor (scalar (fadd (fsum (data ms1)) (fsum (data ms2)))),
                            self_total := int n1 + int n2\<rparr>"
  have u1: "update s0 p1 q1 = Inr s1"
    using assms(2) by (simp add: update_def s0 s1_def t_sum_def [of ms1])
  have u2: "update s1 p2 q2 = Inr s2"
    using assms(3) by (simp add: update_def s0 s1_def s2_def t_sum_def [of ms2])
  have c: "compute s2
           = Inr (scalar (fdiv (fadd (fsum (data ms1)) (fsum (data ms2))) (Fin (real (n1 + n2)))))"
    by (simp add: compute_def s0 s1_def s2_def jsd_compute_def)
       (simp add: t_div_int_def t_map_def scalar_def)
  show ?thesis using u1 u2 c by blast
qed

lemmas kernel_defs =
  jsd_update_def check_same_shape_def ndim_def t_exp_def t_log_def t_scale_def t_add_def
  t_sub_def t_mul_def t_div_def safe_xlogy_def t_div_last_def sum_last_def sum_last_keepdim_def
  t_map_def t_map2_def rows_def tensor2d_def

lemmas elem_defs = fsum_def fsub_def safe_xlogy_elem_def signed_inf_def

lemma chunks_numeral [simp]:
  "chunks (numeral k) d xs = take d xs # chunks (pred_numeral k) d (drop d xs)"
  by (simp add: numeral_eq_Suc)

lemma ex_update_a:
  "jsd_update (tensor2d 1 2 [1, 0]) (tensor2d 1 2 [0, 1]) False
   = Inr (\<lparr>shape = [1], data = [Fin (ln 2)]\<rparr>, 1)"
  by (simp add: kernel_defs Let_def elem_defs)

lemma ex_update_b:
  "jsd_update (tensor2d 2 2 [1, 1, 1, 1]) (tensor2d 2 2 [1, 1, 1, 1]) False
   = Inr (\<lparr>shape = [2], data = [Fin 0, Fin 0]\<rparr>, 2)"
  by (simp add: kernel_defs Let_def elem_defs)

lemma ex_update_c:
  "jsd_update (tensor2d 1 2 [1, 3]) (tensor2d 1 2 [1, 1]) False
   = Inr (\<lparr>shape = [1],
          data = [Fin (1 / 2 * (1 / 4 * ln (2 / 3) + 3 / 4 * ln (6 / 5)
                                + (1 / 2 * ln (4 / 3) + 1 / 2 * ln (4 / 5))))]\<rparr>, 1)"
  by (simp add: kernel_defs Let_def elem_defs)

theorem accumulator_mean_is_weighted_witness:
  "\<exists>s0 s1 s2.
      JSDivergence_init False (Some ''mean'') = Inr s0
      \<and> update s0 (tensor2d 1 2 [1, 0]) (tensor2d 1 2 [0, 1]) = Inr s1
      \<and> update s1 (tensor2d 2 2 [1, 1, 1, 1]) (tensor2d 2 2 [1, 1, 1, 1]) = Inr s2
      \<and> compute s2 = Inr (scalar (Fin (ln 2 / 3)))
      \<and> ln 2 / 3 \<noteq> (ln 2 / 1 + 0 / 2) / (2::real)"
proof -
  have i: "JSDivergence_init False (Some ''mean'')
           = Inr \<lparr>self_log_prob = False, self_reduction = Some ''mean'',
                  self_measures = MTensor (scalar (Fin 0)), self_total = 0\<rparr>"
    by (simp add: JSDivergence_init_def allowed_reduction_def)
  have "ln (2::real) \<noteq> 0" by simp
  then have ne: "ln 2 / 3 \<noteq> (ln 2 / 1 + 0 / 2) / (2::real)" by simp
  from accumulator_mean_is_weighted [OF i ex_update_a ex_update_b] ne i
  show ?thesis by (simp add: fsum_def)
qed

theorem js_divergence_eq_single_update_witness:
  "(case JSDivergence_init False (Some ''mean'') of
      Inl e \<Rightarrow> Inl e
    | Inr s \<Rightarrow> (case update s (tensor2d 1 2 [1, 0]) (tensor2d 1 2 [0, 1]) of
                 Inl e \<Rightarrow> Inl e | Inr s' \<Rightarrow> compute s'))
   = js_divergence (tensor2d 1 2 [1, 0]) (tensor2d 1 2 [0, 1]) False (Some ''mean'')
   \<and> js_divergence (tensor2d 1 2 [1, 0]) (tensor2d 1 2 [0, 1]) False (Some ''mean'')
     = Inr (scalar (Fin (ln 2)))"
proof -
  have i: "JSDivergence_init False (Some ''mean'')
           = Inr \<lparr>self_log_prob = False, self_reduction = Some ''mean'',
                  self_measures = MTensor (scalar (Fin 0)), self_total = 0\<rparr>"
    by (simp add: JSDivergence_init_def allowed_reduction_def)
  have v: "js_divergence (tensor2d 1 2 [1, 0]) (tensor2d 1 2 [0, 1]) False (Some ''mean'')
           = Inr (scalar (Fin (ln 2)))"
    unfolding js_divergence_def ex_update_a
    by (simp add: jsd_compute_def t_sum_def t_div_int_def t_map_def scalar_def fsum_def)
  from js_divergence_eq_single_update [OF i, of "tensor2d 1 2 [1, 0]" "tensor2d 1 2 [0, 1]"] v i
  show ?thesis by simp
qed

theorem js_divergence_symmetric_witness:
  "js_divergence (tensor2d 1 2 [1, 3]) (tensor2d 1 2 [1, 1]) False (Some ''none'')
   = js_divergence (tensor2d 1 2 [1, 1]) (tensor2d 1 2 [1, 3]) False (Some ''none'')
   \<and> js_divergence (tensor2d 1 2 [1, 3]) (tensor2d 1 2 [1, 1]) False (Some ''none'')
     = Inr \<lparr>shape = [1],
            data = [Fin (1 / 2 * (1 / 4 * ln (2 / 3) + 3 / 4 * ln (6 / 5)
                                  + (1 / 2 * ln (4 / 3) + 1 / 2 * ln (4 / 5))))]\<rparr>"
proof -
  have "js_divergence (tensor2d 1 2 [1, 3]) (tensor2d 1 2 [1, 1]) False (Some ''none'')
        = Inr \<lparr>shape = [1],
               data = [Fin (1 / 2 * (1 / 4 * ln (2 / 3) + 3 / 4 * ln (6 / 5)
                                     + (1 / 2 * ln (4 / 3) + 1 / 2 * ln (4 / 5))))]\<rparr>"
    unfolding js_divergence_def ex_update_c by (simp add: jsd_compute_def)
  moreover have "wf_tensor (tensor2d 1 2 [1, 3])" "wf_tensor (tensor2d 1 2 [1, 1])"
    by (simp_all add: wf_tensor_def tensor2d_def)
  ultimately show ?thesis
    using js_divergence_symmetric [of "tensor2d 1 2 [1, 3]" "tensor2d 1 2 [1, 1]" 1 2 False]
    by (simp add: tensor2d_def)
qed

















































end
